theory Spec2Isabelle
  imports Complex_Main "HOL-Library.Option_ord" "HOL-Library.Multiset"
begin

section \<open>Data model (db/model.py)\<close>

text \<open>
  A naive \<open>datetime\<close> is the number of microseconds since 0001-01-01 00:00:00 shifted so
  that day \<open>n\<close> (Python's proleptic ordinal, \<open>date.toordinal()\<close>) starts at
  \<open>n * us_per_day\<close>; a \<open>date\<close> is its ordinal. A column is nullable unless it is the
  primary key, so every other column holds an \<open>option\<close>.
\<close>

type_synonym datetime = int
type_synonym date = int

definition us_per_day :: int where
  "us_per_day = 86400000000"

definition MAXORDINAL :: int where
  "MAXORDINAL = 3652059"

definition date_of :: "datetime \<Rightarrow> date" where
  "date_of t = t div us_per_day"

definition midnight :: "date \<Rightarrow> datetime" where
  "midnight d = d * us_per_day"

record Line =
  l_id :: int
  l_line_number :: "string option"
  l_name :: "string option"

record QuotaResults =
  q_id :: int
  q_process_id :: "string option"
  q_line_id :: "int option"
  q_data_used :: "int option"
  q_usage_percentage :: "int option"
  q_data_remaining :: "int option"
  q_balance :: "int option"
  q_renewal_date :: "string option"
  q_remaining_days :: "int option"
  q_renewal_cost :: "int option"
  q_date_time :: "datetime option"

record SpeedTestResult =
  s_id :: int
  s_process_id :: "string option"
  s_line_id :: "int option"
  s_ping :: "int option"
  s_upload_speed :: "int option"
  s_download_speed :: "int option"
  s_public_ip :: "string option"
  s_date_time :: "datetime option"

section \<open>Response shapes (db/schema.py)\<close>

record LineSchema =
  ls_id :: int
  ls_line_number :: string
  ls_name :: string

record QuotaResultSchema =
  qs_id :: "int option"
  qs_process_id :: "string option"
  qs_line_id :: "int option"
  qs_data_used :: "int option"
  qs_usage_percentage :: "int option"
  qs_data_remaining :: "int option"
  qs_balance :: "int option"
  qs_renewal_date :: "string option"
  qs_remaining_days :: "int option"
  qs_renewal_cost :: "int option"
  qs_date_time :: "datetime option"

record SpeedTestResultSchema =
  ss_id :: int
  ss_process_id :: string
  ss_line_id :: int
  ss_ping :: int
  ss_upload_speed :: int
  ss_download_speed :: int
  ss_public_ip :: string
  ss_date_time :: datetime

record RemainingBalanceByLine =
  rb_line_id :: int
  rb_total_balance :: rat

record AverageSpeedsPerLine =
  asp_line_id :: "int option"
  avg_upload_speed :: "rat option"
  avg_download_speed :: "rat option"

record AveragePingPerLine =
  app_line_id :: "int option"
  avg_ping :: "rat option"

datatype error = OverflowError | ValidationError | ResponseValidationError | RenderError

text \<open>
  \<open>model_validate\<close> raises when a field the schema declares without \<open>Optional\<close> is
  \<open>None\<close>. \<open>QuotaResultSchema\<close>, \<open>AverageSpeedsPerLine\<close> and \<open>AveragePingPerLine\<close>
  declare every field \<open>Optional\<close>, so their validation is total.
\<close>

definition LineSchema_validate :: "Line \<Rightarrow> error + LineSchema" where
  "LineSchema_validate l =
     (case (l_line_number l, l_name l) of
        (Some lnum, Some nm) \<Rightarrow> Inr \<lparr>ls_id = l_id l, ls_line_number = lnum, ls_name = nm\<rparr>
      | _ \<Rightarrow> Inl ValidationError)"

definition QuotaResultSchema_validate :: "QuotaResults \<Rightarrow> QuotaResultSchema" where
  "QuotaResultSchema_validate q =
     \<lparr>qs_id = Some (q_id q), qs_process_id = q_process_id q, qs_line_id = q_line_id q,
      qs_data_used = q_data_used q, qs_usage_percentage = q_usage_percentage q,
      qs_data_remaining = q_data_remaining q, qs_balance = q_balance q,
      qs_renewal_date = q_renewal_date q, qs_remaining_days = q_remaining_days q,
      qs_renewal_cost = q_renewal_cost q, qs_date_time = q_date_time q\<rparr>"

definition SpeedTestResultSchema_validate :: "SpeedTestResult \<Rightarrow> error + SpeedTestResultSchema" where
  "SpeedTestResultSchema_validate s =
     (case (s_process_id s, s_line_id s, s_ping s, s_upload_speed s, s_download_speed s,
            s_public_ip s, s_date_time s) of
        (Some p, Some l, Some pg, Some u, Some d, Some ip, Some t) \<Rightarrow>
          Inr \<lparr>ss_id = s_id s, ss_process_id = p, ss_line_id = l, ss_ping = pg,
               ss_upload_speed = u, ss_download_speed = d, ss_public_ip = ip,
               ss_date_time = t\<rparr>
      | _ \<Rightarrow> Inl ValidationError)"

text \<open>A list comprehension over a validation that may raise: the first failure wins.\<close>

fun validate_all :: "('a \<Rightarrow> error + 'b) \<Rightarrow> 'a list \<Rightarrow> error + 'b list" where
  "validate_all f [] = Inr []"
| "validate_all f (x # xs) =
     (case f x of
        Inl e \<Rightarrow> Inl e
      | Inr y \<Rightarrow> (case validate_all f xs of Inl e \<Rightarrow> Inl e | Inr ys \<Rightarrow> Inr (y # ys)))"

section \<open>The world a call runs in\<close>

text \<open>
  The session gives access to the three tables; \<open>datetime.now()\<close> reads the clock; the
  module's logger receives one entry per \<open>logger.info\<close> call. What matplotlib does
  with a chart is outside the repository: \<open>display_ok\<close> says whether its calls complete
  in this process or raise.
\<close>

datatype log_entry =
    FetchedLines nat
  | FetchedQuotaResults nat
  | FetchedSpeedTestResults nat
  | FetchedTotalDataUsage nat
  | DisplayedTotalDataUsed
  | FetchedRenewalCostCounts nat
  | DisplayedRenewalCostPie
  | FetchedRemainingBalances nat
  | LineRemainingBalance "int option" "int option"
  | FetchedAverageSpeeds nat int
  | FetchedAveragePing nat int

record world =
  lines :: "Line list"
  quota_results :: "QuotaResults list"
  speed_test_results :: "SpeedTestResult list"
  now :: datetime
  display_ok :: bool
  log_out :: "log_entry list"

definition info :: "log_entry \<Rightarrow> world \<Rightarrow> world" where
  "info e w = w\<lparr>log_out := log_out w @ [e]\<rparr>"

section \<open>SQL building blocks\<close>

text \<open>
  \<open>GROUP BY\<close> as a streaming aggregate: the rows are read in table order and each row is
  appended to the group of its key, a new key opening a new group at the end. SQL leaves
  the order of the groups open; no statement below depends on it.
\<close>

fun add_to_group :: "'k \<Rightarrow> 'r \<Rightarrow> ('k \<times> 'r list) list \<Rightarrow> ('k \<times> 'r list) list" where
  "add_to_group k r [] = [(k, [r])]"
| "add_to_group k r ((k', rs) # gs) =
     (if k = k' then (k', rs @ [r]) # gs else (k', rs) # add_to_group k r gs)"

definition group_by :: "('r \<Rightarrow> 'k) \<Rightarrow> 'r list \<Rightarrow> ('k \<times> 'r list) list" where
  "group_by key rows = foldl (\<lambda>gs r. add_to_group (key r) r gs) [] rows"

text \<open>\<open>SUM\<close> and \<open>AVG\<close> skip NULL and are NULL when no value is left.\<close>

fun non_null :: "'a option list \<Rightarrow> 'a list" where
  "non_null [] = []"
| "non_null (None # vs) = non_null vs"
| "non_null (Some v # vs) = v # non_null vs"

definition sql_sum :: "int option list \<Rightarrow> int option" where
  "sql_sum vs = (case non_null vs of [] \<Rightarrow> None | x # xs \<Rightarrow> Some (sum_list (x # xs)))"

definition sql_avg :: "int option list \<Rightarrow> rat option" where
  "sql_avg vs =
     (case non_null vs of
        [] \<Rightarrow> None
      | x # xs \<Rightarrow> Some (of_int (sum_list (x # xs)) / of_nat (length (x # xs))))"

text \<open>
  \<open>col BETWEEN lo AND hi\<close> with \<open>date\<close> bounds against a \<open>DateTime\<close> column: each bound
  is the midnight that starts its day (MySQL converts the date literal so, and SQLAlchemy
  binds a \<open>date\<close> to SQLite's \<open>DateTime\<close> with the time 00:00:00), both ends are
  inclusive, and a NULL timestamp never matches.
\<close>

definition between :: "datetime option \<Rightarrow> date \<Rightarrow> date \<Rightarrow> bool" where
  "between t lo hi =
     (case t of None \<Rightarrow> False | Some ts \<Rightarrow> midnight lo \<le> ts \<and> ts \<le> midnight hi)"

text \<open>
  \<open>ORDER BY col DESC\<close>: NULL sorts below every value (MySQL, SQLite), so it comes last.
\<close>

definition order_by_desc :: "('r \<Rightarrow> datetime option) \<Rightarrow> 'r list \<Rightarrow> 'r list" where
  "order_by_desc key rows = rev (sort_key key rows)"

text \<open>Python's truthiness of an \<open>Optional[int]\<close> argument: \<open>None\<close> and \<open>0\<close> are falsy.\<close>

definition truthy :: "int option \<Rightarrow> bool" where
  "truthy v = (case v of None \<Rightarrow> False | Some n \<Rightarrow> n \<noteq> 0)"

section \<open>Data access (db/crud.py)\<close>

text \<open>
  Each function takes the world and returns the world after the call together with what
  the call returns or raises. A Python function that ends without \<open>return\<close> yields
  \<open>None\<close>, written \<open>PyNone\<close>.
\<close>

datatype 'a py_ret = PyNone | PyRows "'a list"

definition read_lines :: "world \<Rightarrow> int option \<Rightarrow> world \<times> (error + LineSchema list)" where
  "read_lines w i =
     (let results = (if truthy i then filter (\<lambda>l. Some (l_id l) = i) (lines w) else lines w);
          w' = info (FetchedLines (length results)) w
      in (w', validate_all LineSchema_validate results))"

definition read_quota_results :: "world \<Rightarrow> int option \<Rightarrow> world \<times> QuotaResultSchema list" where
  "read_quota_results w line_id =
     (let selected = (if truthy line_id
                      then filter (\<lambda>q. q_line_id q = line_id) (quota_results w)
                      else quota_results w);
          results = order_by_desc q_date_time selected;
          w' = info (FetchedQuotaResults (length results)) w
      in (w', map QuotaResultSchema_validate results))"

definition read_speed_test_results ::
  "world \<Rightarrow> int option \<Rightarrow> world \<times> (error + SpeedTestResultSchema list)" where
  "read_speed_test_results w line_id =
     (let results = (if truthy line_id
                     then filter (\<lambda>s. s_line_id s = line_id) (speed_test_results w)
                     else speed_test_results w);
          w' = info (FetchedSpeedTestResults (length results)) w
      in (w', validate_all SpeedTestResultSchema_validate results))"

text \<open>
  The rows of the query of \<open>get_total_dataused_per_line\<close> (its local \<open>results\<close>).
  The function logs their number, hands them to matplotlib, logs again when the chart has
  been shown, and returns nothing; the chart itself is not modelled.
\<close>

definition total_dataused_results :: "world \<Rightarrow> (int option \<times> int option) list" where
  "total_dataused_results w =
     map (\<lambda>(k, g). (k, sql_sum (map q_data_used g))) (group_by q_line_id (quota_results w))"

definition get_total_dataused_per_line :: "world \<Rightarrow> world \<times> (error + unit)" where
  "get_total_dataused_per_line w =
     (let results = total_dataused_results w;
          w1 = info (FetchedTotalDataUsage (length results)) w
      in if display_ok w1 then (info DisplayedTotalDataUsed w1, Inr ())
         else (w1, Inl RenderError))"

text \<open>The rows of the query of \<open>get_count_per_renewal_cost\<close> (its local \<open>stmt\<close>).\<close>

definition count_per_renewal_cost_results :: "world \<Rightarrow> (int option \<times> nat) list" where
  "count_per_renewal_cost_results w =
     map (\<lambda>(k, g). (k, length g))
       (group_by q_renewal_cost (filter (\<lambda>q. q_renewal_cost q \<noteq> None) (quota_results w)))"

definition get_count_per_renewal_cost :: "world \<Rightarrow> world \<times> (error + unit)" where
  "get_count_per_renewal_cost w =
     (let stmt = count_per_renewal_cost_results w;
          w1 = info (FetchedRenewalCostCounts (length stmt)) w
      in if display_ok w1 then (info DisplayedRenewalCostPie w1, Inr ())
         else (w1, Inl RenderError))"

text \<open>The rows of the query of \<open>remaining_balance_by_line\<close> (its local \<open>results\<close>).\<close>

definition remaining_balance_results :: "world \<Rightarrow> (int option \<times> int option) list" where
  "remaining_balance_results w =
     map (\<lambda>(k, g). (k, sql_sum (map q_balance g))) (group_by q_line_id (quota_results w))"

definition remaining_balance_by_line ::
  "world \<Rightarrow> world \<times> (int option \<times> int option) py_ret" where
  "remaining_balance_by_line w =
     (let results = remaining_balance_results w;
          w1 = info (FetchedRemainingBalances (length results)) w;
          w2 = foldl (\<lambda>v (k, t). info (LineRemainingBalance k t) v) w1 results
      in (w2, PyNone))"

text \<open>
  \<open>end_date = datetime.now().date()\<close>, \<open>start_date = end_date - timedelta(days=days)\<close>:
  \<open>timedelta\<close> refuses a magnitude above 999999999 days and the subtraction refuses a
  result outside \<open>date.min .. date.max\<close>, both with \<open>OverflowError\<close>.
\<close>

definition window :: "datetime \<Rightarrow> int \<Rightarrow> error + (date \<times> date)" where
  "window t days =
     (let end_date = date_of t
      in if 999999999 < \<bar>days\<bar> then Inl OverflowError
         else if 0 < end_date - days \<and> end_date - days \<le> MAXORDINAL
              then Inr (end_date - days, end_date)
              else Inl OverflowError)"

definition average_speeds_per_line ::
  "world \<Rightarrow> int \<Rightarrow> world \<times> (error + AverageSpeedsPerLine list)" where
  "average_speeds_per_line w days =
     (case window (now w) days of
        Inl e \<Rightarrow> (w, Inl e)
      | Inr (start_date, end_date) \<Rightarrow>
          (let rows = filter (\<lambda>s. between (s_date_time s) start_date end_date)
                        (speed_test_results w);
               results = map (\<lambda>(k, g). \<lparr>asp_line_id = k,
                                         avg_upload_speed = sql_avg (map s_upload_speed g),
                                         avg_download_speed = sql_avg (map s_download_speed g)\<rparr>)
                           (group_by s_line_id rows);
               w' = info (FetchedAverageSpeeds (length results) days) w
           in (w', Inr results)))"

definition average_ping_per_line ::
  "world \<Rightarrow> int \<Rightarrow> world \<times> (error + AveragePingPerLine list)" where
  "average_ping_per_line w days =
     (case window (now w) days of
        Inl e \<Rightarrow> (w, Inl e)
      | Inr (start_date, end_date) \<Rightarrow>
          (let rows = filter (\<lambda>s. between (s_date_time s) start_date end_date)
                        (speed_test_results w);
               results = map (\<lambda>(k, g). \<lparr>app_line_id = k, avg_ping = sql_avg (map s_ping g)\<rparr>)
                           (group_by s_line_id rows);
               w' = info (FetchedAveragePing (length results) days) w
           in (w', Inr results)))"

section \<open>The endpoint of the remaining balance (app.py)\<close>

text \<open>
  The handler returns what \<open>remaining_balance_by_line\<close> returns, and FastAPI validates
  it against \<open>response_model=List[RemainingBalanceByLine]\<close>, whose two fields are
  required: \<open>None\<close> is no list, and a NULL in a row is no number.
\<close>

definition RemainingBalanceByLine_validate ::
  "int option \<times> int option \<Rightarrow> error + RemainingBalanceByLine" where
  "RemainingBalanceByLine_validate row =
     (case row of
        (Some l, Some b) \<Rightarrow> Inr \<lparr>rb_line_id = l, rb_total_balance = of_int b\<rparr>
      | _ \<Rightarrow> Inl ResponseValidationError)"

definition response_list ::
  "('a \<Rightarrow> error + 'b) \<Rightarrow> 'a py_ret \<Rightarrow> error + 'b list" where
  "response_list f r =
     (case r of PyNone \<Rightarrow> Inl ResponseValidationError | PyRows rows \<Rightarrow> validate_all f rows)"

definition get_remaining_balance_by_line ::
  "world \<Rightarrow> world \<times> (error + RemainingBalanceByLine list)" where
  "get_remaining_balance_by_line w =
     (let (w', r) = remaining_balance_by_line w
      in (w', response_list RemainingBalanceByLine_validate r))"

section \<open>Vocabulary of the statements and test data\<close>




text \<open>The quota rows an optional \<open>line_id\<close> filter asks for.\<close>

definition matches_filter :: "int option \<Rightarrow> QuotaResults \<Rightarrow> bool" where
  "matches_filter line_id q \<longleftrightarrow> line_id = None \<or> q_line_id q = line_id"

text \<open>The database state: the contents of the three tables.\<close>

definition tables :: "world \<Rightarrow> Line list \<times> QuotaResults list \<times> SpeedTestResult list" where
  "tables w = (lines w, quota_results w, speed_test_results w)"

text \<open>
  A database in the shape of the fixtures of test_app.py, with a second line and a few more
  rows; the clock stands at 10:00 on 2026-11-03 (ordinal 739923).
\<close>

definition quota_row :: "int \<Rightarrow> int option \<Rightarrow> int option \<Rightarrow> int option \<Rightarrow> int option
    \<Rightarrow> datetime option \<Rightarrow> QuotaResults" where
  "quota_row i line used bal cost t =
     \<lparr>q_id = i, q_process_id = Some ''proc-123'', q_line_id = line, q_data_used = used,
      q_usage_percentage = Some 50, q_data_remaining = Some 100, q_balance = bal,
      q_renewal_date = Some ''2023-09-01'', q_remaining_days = Some 10,
      q_renewal_cost = cost, q_date_time = t\<rparr>"

definition speed_row :: "int \<Rightarrow> int option \<Rightarrow> int option \<Rightarrow> int option \<Rightarrow> int option
    \<Rightarrow> datetime option \<Rightarrow> SpeedTestResult" where
  "speed_row i line pg up down t =
     \<lparr>s_id = i, s_process_id = Some ''speed-123'', s_line_id = line, s_ping = pg,
      s_upload_speed = up, s_download_speed = down, s_public_ip = Some ''192.168.1.1'',
      s_date_time = t\<rparr>"

definition clock :: datetime where
  "clock = 739923 * us_per_day + 36000000000"

definition days_ago :: "int \<Rightarrow> datetime" where
  "days_ago d = clock - d * us_per_day"

definition test_world :: world where
  "test_world =
     \<lparr>lines = [\<lparr>l_id = 1, l_line_number = Some ''123'', l_name = Some ''Test Line''\<rparr>,
               \<lparr>l_id = 2, l_line_number = Some ''456'', l_name = Some ''Other Line''\<rparr>],
      quota_results =
        [quota_row 1 (Some 1) (Some 100) (Some 50) (Some 20) (Some (days_ago 3)),
         quota_row 2 (Some 2) (Some 7) (Some 5) None (Some (days_ago 1)),
         quota_row 3 (Some 1) (Some 30) (Some 25) (Some 20) (Some (days_ago 2))],
      speed_test_results =
        [speed_row 1 (Some 1) (Some 20) (Some 50) (Some 100) (Some (days_ago 10)),
         speed_row 2 (Some 2) (Some 30) (Some 10) (Some 40) (Some (days_ago 40)),
         speed_row 3 (Some 2) (Some 50) (Some 20) (Some 60) (Some (days_ago 4))],
      now = clock, display_ok = False, log_out = []\<rparr>"



lemmas test_defs = test_world_def quota_row_def speed_row_def clock_def days_ago_def
  us_per_day_def

section \<open>Grouping and aggregates\<close>

lemma add_to_group_keys:
  "map fst (add_to_group k r gs) = (if k \<in> fst ` set gs then map fst gs else map fst gs @ [k])"
  by (induction gs) force+

lemma add_to_group_map_of:
  "map_of (add_to_group k r gs) =
     (map_of gs)(k \<mapsto> (case map_of gs k of None \<Rightarrow> [r] | Some rs \<Rightarrow> rs @ [r]))"
  by (induction gs) (auto simp: fun_eq_iff)

lemma group_by_snoc:
  "group_by key (rows @ [r]) = add_to_group (key r) r (group_by key rows)"
  by (simp add: group_by_def)

lemma group_by_keys_distinct: "distinct (map fst (group_by key rows))"
proof (induction rows rule: rev_induct)
  case Nil
  show ?case by (simp add: group_by_def)
next
  case (snoc r rows)
  then show ?case by (simp add: group_by_snoc add_to_group_keys)
qed

lemma filter_key_absent: "k \<notin> key ` set rows \<Longrightarrow> filter (\<lambda>r. key r = k) rows = []"
  by (induction rows) auto

lemma group_by_map_of:
  "map_of (group_by key rows) k =
     (if k \<in> key ` set rows then Some (filter (\<lambda>r. key r = k) rows) else None)"
proof (induction rows arbitrary: k rule: rev_induct)
  case Nil
  show ?case by (simp add: group_by_def)
next
  case (snoc r rows)
  then show ?case
    by (simp add: group_by_snoc add_to_group_map_of filter_key_absent)
qed

lemma group_by_mem:
  "(k, g) \<in> set (group_by key rows) \<longleftrightarrow> g = filter (\<lambda>r. key r = k) rows \<and> g \<noteq> []"
proof -
  have "(k, g) \<in> set (group_by key rows) \<longleftrightarrow> map_of (group_by key rows) k = Some g"
    by (simp add: group_by_keys_distinct)
  also have "\<dots> \<longleftrightarrow> g = filter (\<lambda>r. key r = k) rows \<and> g \<noteq> []"
    by (auto simp: group_by_map_of filter_empty_conv)
  finally show ?thesis .
qed







section \<open>Total data used per line\<close>



section \<open>Count per renewal cost\<close>

lemma count_per_renewal_cost_results_distinct:
  "distinct (map fst (count_per_renewal_cost_results w))"
proof -
  have "map fst (count_per_renewal_cost_results w) =
        map fst (group_by q_renewal_cost
                   (filter (\<lambda>q. q_renewal_cost q \<noteq> None) (quota_results w)))"
    by (simp add: count_per_renewal_cost_results_def case_prod_unfold comp_def)
  then show ?thesis by (simp add: group_by_keys_distinct)
qed

lemma filter_cost_non_null:
  "filter (\<lambda>q. q_renewal_cost q = c) (filter (\<lambda>q. q_renewal_cost q \<noteq> None) qs) =
     (if c = None then [] else filter (\<lambda>q. q_renewal_cost q = c) qs)"
  by (induction qs) auto

text \<open>
  C5. The query of \<open>get_count_per_renewal_cost\<close> counts the quota rows grouped by
  renewal cost: no result row has a NULL renewal cost, and \<open>(c, n)\<close> is a result row
  exactly when \<open>c\<close> is a non-null renewal cost that some quota row has and \<open>n\<close> is
  the number of quota rows whose renewal cost is \<open>c\<close>.
\<close>

theorem get_count_per_renewal_cost_counts:
  "(c, n) \<in> set (count_per_renewal_cost_results w) \<longleftrightarrow>
     c \<noteq> None \<and> 0 < n \<and>
     n = length (filter (\<lambda>q. q_renewal_cost q = c) (quota_results w))"
proof -
  let ?G = "group_by q_renewal_cost
              (filter (\<lambda>q. q_renewal_cost q \<noteq> None) (quota_results w))"
  have "(c, n) \<in> set (count_per_renewal_cost_results w) \<longleftrightarrow>
          (\<exists>g. (c, g) \<in> set ?G \<and> n = length g)"
    by (force simp: count_per_renewal_cost_results_def)
  also have "\<dots> \<longleftrightarrow> c \<noteq> None \<and> 0 < n \<and>
          n = length (filter (\<lambda>q. q_renewal_cost q = c) (quota_results w))"
    unfolding group_by_mem filter_cost_non_null by auto
  finally show ?thesis .
qed

theorem get_count_per_renewal_cost_counts_witness:
  "count_per_renewal_cost_results test_world = [(Some 20, 2)] \<and>
   (Some 20, 2) \<in> set (count_per_renewal_cost_results test_world)"
  using get_count_per_renewal_cost_counts [of "Some 20" 2 test_world]
  by (simp add: test_defs count_per_renewal_cost_results_def group_by_def)

section \<open>Distinct group keys\<close>

lemma average_speeds_keys:
  "asp_line_id \<circ>
     (\<lambda>(k, g). \<lparr>asp_line_id = k, avg_upload_speed = f g, avg_download_speed = h g\<rparr>) = fst"
  by (auto simp: fun_eq_iff)

lemma average_ping_keys:
  "app_line_id \<circ> (\<lambda>(k, g). \<lparr>app_line_id = k, avg_ping = f g\<rparr>) = fst"
  by (auto simp: fun_eq_iff)

lemma test_window: "window (now test_world) 30 = Inr (739893, 739923)"
  by (simp add: window_def date_of_def MAXORDINAL_def test_defs)

lemma test_speeds:
  "snd (average_speeds_per_line test_world 30) =
     Inr [\<lparr>asp_line_id = Some 1, avg_upload_speed = Some 50, avg_download_speed = Some 100\<rparr>,
          \<lparr>asp_line_id = Some 2, avg_upload_speed = Some 20, avg_download_speed = Some 60\<rparr>]"
  by (simp add: average_speeds_per_line_def test_window)
     (simp add: test_defs between_def midnight_def group_by_def sql_avg_def)

lemma test_pings:
  "snd (average_ping_per_line test_world 30) =
     Inr [\<lparr>app_line_id = Some 1, avg_ping = Some 20\<rparr>,
          \<lparr>app_line_id = Some 2, avg_ping = Some 50\<rparr>]"
  by (simp add: average_ping_per_line_def test_window)
     (simp add: test_defs between_def midnight_def group_by_def sql_avg_def)

text \<open>
  C10. In every list that \<open>average_speeds_per_line\<close> or \<open>average_ping_per_line\<close>
  returns, each \<open>line_id\<close> appears at most once, and in the rows of the query of
  \<open>get_count_per_renewal_cost\<close> each renewal cost appears at most once.
\<close>

theorem aggregation_keys_distinct:
  "(case snd (average_speeds_per_line w days) of
      Inl e \<Rightarrow> True | Inr rows \<Rightarrow> distinct (map asp_line_id rows)) \<and>
   (case snd (average_ping_per_line w days) of
      Inl e \<Rightarrow> True | Inr rows \<Rightarrow> distinct (map app_line_id rows)) \<and>
   distinct (map fst (count_per_renewal_cost_results w))"
proof (intro conjI)
  show "case snd (average_speeds_per_line w days) of
          Inl e \<Rightarrow> True | Inr rows \<Rightarrow> distinct (map asp_line_id rows)"
    by (simp add: average_speeds_per_line_def Let_def average_speeds_keys
          group_by_keys_distinct split: sum.split prod.split)
  show "case snd (average_ping_per_line w days) of
          Inl e \<Rightarrow> True | Inr rows \<Rightarrow> distinct (map app_line_id rows)"
    by (simp add: average_ping_per_line_def Let_def average_ping_keys
          group_by_keys_distinct split: sum.split prod.split)
  show "distinct (map fst (count_per_renewal_cost_results w))"
    by (rule count_per_renewal_cost_results_distinct)
qed

theorem aggregation_keys_distinct_witness:
  "distinct (map asp_line_id
     [\<lparr>asp_line_id = Some 1, avg_upload_speed = Some 50, avg_download_speed = Some 100\<rparr>,
      \<lparr>asp_line_id = Some 2, avg_upload_speed = Some 20, avg_download_speed = Some 60\<rparr>]) \<and>
   distinct (map app_line_id
     [\<lparr>app_line_id = Some 1, avg_ping = Some 20\<rparr>, \<lparr>app_line_id = Some 2, avg_ping = Some 50\<rparr>]) \<and>
   distinct (map fst (count_per_renewal_cost_results test_world))"
  using aggregation_keys_distinct [of test_world 30]
  by (simp add: test_speeds test_pings)

section \<open>A filter of zero\<close>

text \<open>
  C2. \<open>read_lines\<close> with \<open>id=0\<close>, \<open>read_quota_results\<close> with \<open>line_id=0\<close> and
  \<open>read_speed_test_results\<close> with \<open>line_id=0\<close> do what the same call without the
  argument does: the same rows returned or the same error raised, and the same log line.
\<close>

theorem falsy_zero_filter:
  "read_lines w (Some 0) = read_lines w None \<and>
   read_quota_results w (Some 0) = read_quota_results w None \<and>
   read_speed_test_results w (Some 0) = read_speed_test_results w None"
  by (simp add: read_lines_def read_quota_results_def read_speed_test_results_def truthy_def)

section \<open>The tables are only read\<close>

lemma tables_info: "tables (info e w) = tables w"
  by (simp add: tables_def info_def)

lemma tables_balance_log:
  "tables (foldl (\<lambda>v (k, t). info (LineRemainingBalance k t) v) w rows) = tables w"
  by (induction rows arbitrary: w) (auto simp: tables_info)

text \<open>
  C8. Each of the eight data-access functions leaves the contents of the tables
  \<open>lines\<close>, \<open>quota_results\<close> and \<open>speed_test_results\<close> as they were before the
  call, whether it returns or raises; what a call changes is the log.
\<close>

theorem data_access_reads_only:
  "tables (fst (read_lines w i)) = tables w \<and>
   tables (fst (read_quota_results w i)) = tables w \<and>
   tables (fst (read_speed_test_results w i)) = tables w \<and>
   tables (fst (get_total_dataused_per_line w)) = tables w \<and>
   tables (fst (get_count_per_renewal_cost w)) = tables w \<and>
   tables (fst (remaining_balance_by_line w)) = tables w \<and>
   tables (fst (average_speeds_per_line w days)) = tables w \<and>
   tables (fst (average_ping_per_line w days)) = tables w"
proof (intro conjI)
  show "tables (fst (read_lines w i)) = tables w"
    by (simp add: read_lines_def Let_def tables_info)
  show "tables (fst (read_quota_results w i)) = tables w"
    by (simp add: read_quota_results_def Let_def tables_info)
  show "tables (fst (read_speed_test_results w i)) = tables w"
    by (simp add: read_speed_test_results_def Let_def tables_info)
  show "tables (fst (get_total_dataused_per_line w)) = tables w"
    by (simp add: get_total_dataused_per_line_def Let_def tables_info)
  show "tables (fst (get_count_per_renewal_cost w)) = tables w"
    by (simp add: get_count_per_renewal_cost_def Let_def tables_info)
  show "tables (fst (remaining_balance_by_line w)) = tables w"
    by (simp add: remaining_balance_by_line_def Let_def tables_balance_log tables_info)
  show "tables (fst (average_speeds_per_line w days)) = tables w"
    by (simp add: average_speeds_per_line_def Let_def tables_info split: sum.split prod.split)
  show "tables (fst (average_ping_per_line w days)) = tables w"
    by (simp add: average_ping_per_line_def Let_def tables_info split: sum.split prod.split)
qed

section \<open>The time window of the averages\<close>

















section \<open>Negative days\<close>




section \<open>Reading lines\<close>







section \<open>Reading quota results\<close>

lemma order_by_desc_mset: "mset (order_by_desc key rows) = mset rows"
  by (simp add: order_by_desc_def)

lemma order_by_desc_sorted: "sorted (rev (map key (order_by_desc key rows)))"
  by (simp add: order_by_desc_def rev_map)

lemma validated_date_time:
  "map qs_date_time (map QuotaResultSchema_validate qs) = map q_date_time qs"
  by (simp add: QuotaResultSchema_validate_def)

text \<open>
  For a \<open>line_id\<close> filter that is absent or not zero, \<open>read_quota_results\<close> returns
  exactly the quota results matching the filter (as a multiset), most recent first.
\<close>

theorem read_quota_results_sorted:
  assumes "line_id \<noteq> Some 0"
  shows "mset (snd (read_quota_results w line_id)) =
           mset (map QuotaResultSchema_validate
                   (filter (matches_filter line_id) (quota_results w))) \<and>
         sorted (rev (map qs_date_time (snd (read_quota_results w line_id))))"
proof (cases line_id)
  case None
  then have "filter (matches_filter line_id) (quota_results w) = quota_results w"
    by (simp add: matches_filter_def)
  with None show ?thesis
    by (simp add: read_quota_results_def truthy_def Let_def validated_date_time
          order_by_desc_mset order_by_desc_sorted del: map_map)
next
  case (Some n)
  with assms have "n \<noteq> 0" by simp
  moreover from Some have "matches_filter line_id = (\<lambda>q. q_line_id q = Some n)"
    by (simp add: matches_filter_def fun_eq_iff)
  ultimately show ?thesis using Some
    by (simp add: read_quota_results_def truthy_def Let_def validated_date_time
          order_by_desc_mset order_by_desc_sorted del: map_map)
qed

theorem read_quota_results_sorted_witness:
  "map qs_id (snd (read_quota_results test_world (Some 1))) = [Some 3, Some 1] \<and>
   sorted (rev (map qs_date_time (snd (read_quota_results test_world (Some 1)))))"
  using read_quota_results_sorted [of "Some 1" test_world]
  by (simp add: read_quota_results_def truthy_def order_by_desc_def
        QuotaResultSchema_validate_def test_defs)

text \<open>
  C3 at \<open>line_id=0\<close>: no quota result of the test database belongs to line 0, and the
  call returns all three quota results, those of lines 2 and 1.
\<close>

theorem read_quota_results_zero_filter:
  "filter (\<lambda>q. q_line_id q = Some 0) (quota_results test_world) = [] \<and>
   map qs_id (snd (read_quota_results test_world (Some 0))) = [Some 2, Some 3, Some 1] \<and>
   map qs_line_id (snd (read_quota_results test_world (Some 0))) = [Some 2, Some 1, Some 1]"
  by (simp add: read_quota_results_def truthy_def order_by_desc_def
        QuotaResultSchema_validate_def test_defs)

section \<open>The remaining balance endpoint\<close>

text \<open>
  C4 on the test database: the query finds the balance totals 75 for line 1 and 5 for line
  2 and logs them, \<open>remaining_balance_by_line\<close> returns \<open>None\<close>, and the endpoint's
  response validation fails instead of returning the two records.
\<close>

theorem remaining_balance_endpoint_fails:
  "remaining_balance_results test_world = [(Some 1, Some 75), (Some 2, Some 5)] \<and>
   snd (remaining_balance_by_line test_world) = PyNone \<and>
   snd (get_remaining_balance_by_line test_world) = Inl ResponseValidationError \<and>
   log_out (fst (get_remaining_balance_by_line test_world)) =
     [FetchedRemainingBalances 2, LineRemainingBalance (Some 1) (Some 75),
      LineRemainingBalance (Some 2) (Some 5)]"
proof -
  have rows: "remaining_balance_results test_world = [(Some 1, Some 75), (Some 2, Some 5)]"
    by (simp add: remaining_balance_results_def group_by_def sql_sum_def test_defs)
  show ?thesis
    by (simp add: rows get_remaining_balance_by_line_def remaining_balance_by_line_def
          response_list_def info_def)
       (simp add: test_world_def)
qed

end
